theory Spec2Isabelle
  imports Main
begin

section \<open>The host-creation workflow of \<^verbatim>\<open>cmd/server-machine/machine.go\<close>\<close>

text \<open>
  The file holds one workflow, \<^verbatim>\<open>cmdCreateInner\<close>, which drives the libmachine API through
  validation, registry lookup, existence check, driver configuration, creation and
  persistence. libmachine, \<^verbatim>\<open>encoding/json\<close>, \<^verbatim>\<open>path/filepath\<close> and \<^verbatim>\<open>mcndirs\<close> are
  not part of the repository: they enter the model as parameters, and every theorem holds
  for all of them.
\<close>

subsection \<open>Data\<close>

text \<open>\<^verbatim>\<open>type createOptions struct\<close> (lines 52-63).\<close>

record createOptions =
  Name :: string
  DriverName :: string
  StorePath :: string
  CaCertPath :: string
  CaPrivateKeyPath :: string
  ClientCertPath :: string
  ClientKeyPath :: string
  ServerCertPath :: string
  ServerKeyPath :: string
  ServerCertSANs :: "string list"

text \<open>
  \<^verbatim>\<open>type DriverOptions interface\<close> (lines 65-70): an interface value is the record of its
  methods. The method \<^verbatim>\<open>Int\<close> is the field \<open>Int_opt\<close> (\<open>Int\<close> is HOL's intersection); Go's
  \<^verbatim>\<open>int\<close> is only ever the constant 0 here, so \<^typ>\<open>int\<close> stands for it.
\<close>

record DriverOptions =
  String :: "string \<Rightarrow> string"
  StringSlice :: "string \<Rightarrow> string list"
  Int_opt :: "string \<Rightarrow> int"
  Bool :: "string \<Rightarrow> bool"

text \<open>
  \<^verbatim>\<open>type driverOpts struct{}\<close> with its four methods (lines 72-77), as the interface value
  that \<^verbatim>\<open>&driverOpts{}\<close> is when passed as a \<^verbatim>\<open>DriverOptions\<close>.
\<close>

definition driverOpts :: DriverOptions where
  "driverOpts =
     \<lparr> String = (\<lambda>key. ''''),
       StringSlice = (\<lambda>key. []),
       Int_opt = (\<lambda>key. 0),
       Bool = (\<lambda>key. True) \<rparr>"

text \<open>
  The libmachine structs the workflow fills in, with the fields the source sets; every
  other field of the Go structs keeps its zero value and is not read by the workflow.
\<close>

record BaseDriver =
  MachineName :: string
  StorePath :: string

record auth_Options =
  CertDir :: string
  CaCertPath :: string
  CaPrivateKeyPath :: string
  ClientCertPath :: string
  ClientKeyPath :: string
  ServerCertPath :: string
  ServerKeyPath :: string
  StorePath :: string
  ServerCertSANs :: "string list"

record engine_Options =
  ArbitraryFlags :: "string list"
  Env :: "string list"
  InsecureRegistry :: "string list"
  Labels :: "string list"
  RegistryMirror :: "string list"
  StorageDriver :: string
  TLSVerify :: bool
  InstallURL :: string

record swarm_Options =
  IsSwarm :: bool

record host_Options =
  AuthOptions :: auth_Options
  EngineOptions :: engine_Options
  SwarmOptions :: swarm_Options

text \<open>
  Errors. \<^typ>\<open>'e\<close> is the type of the error values that the collaborators return; the
  workflow only formats them with \<^verbatim>\<open>%s\<close> (their \<^verbatim>\<open>Error()\<close> text) or stores them as a
  cause. An \<^verbatim>\<open>error\<close> returned by the workflow is one of the three kinds it builds:
  the value of \<^verbatim>\<open>fmt.Errorf\<close> (an error that is just its message),
  \<^verbatim>\<open>mcnerror.ErrHostAlreadyExists{Name}\<close>, or
  \<^verbatim>\<open>crashreport.CrashError{Cause, Command, Context, DriverName, LogFilePath}\<close>;
  \<open>Foreign\<close> stands for a collaborator's error value handed on as it is, which Go's
  \<^verbatim>\<open>error\<close> type admits as well.
\<close>

datatype 'e go_error =
    errorString string
  | ErrHostAlreadyExists string
  | CrashError 'e string string string string
  | Foreign 'e

text \<open>
  \<^verbatim>\<open>drivers.Driver\<close> is an interface; the workflow calls its \<^verbatim>\<open>SetConfigFromFlags\<close> only.
  \<^typ>\<open>'w\<close> is the state of everything outside the workflow (store, backend, driver
  process), which each call of a collaborator may read and change.
\<close>

record ('w, 'e) Driver =
  SetConfigFromFlags :: "DriverOptions \<Rightarrow> 'w \<Rightarrow> 'e option \<times> 'w"

text \<open>\<^verbatim>\<open>host.Host\<close>; \<^verbatim>\<open>HostOptions\<close> is a pointer, \<open>None\<close> when nil.\<close>

record ('w, 'e) Host =
  Name :: string
  DriverName :: string
  Driver :: "('w, 'e) Driver"
  HostOptions :: "host_Options option"

text \<open>
  The methods of \<^verbatim>\<open>libmachine.API\<close> that the workflow calls. \<^verbatim>\<open>Create\<close> and \<^verbatim>\<open>Save\<close>
  are handed the pointer \<^verbatim>\<open>h\<close> (lines 155 and 173) and may write through it: each returns,
  beside its error, the host as it is after the call, and the workflow goes on with that
  host. \<^verbatim>\<open>Exists\<close>, \<^verbatim>\<open>GetMachinesDir\<close> and the driver's \<^verbatim>\<open>SetConfigFromFlags\<close> are not
  handed the host. A \<^verbatim>\<open>NewHost\<close> that returns no error returns a host (not nil) that has
  a driver, as the workflow takes for granted when it assigns \<^verbatim>\<open>h.HostOptions\<close> and calls
  \<^verbatim>\<open>h.Driver.SetConfigFromFlags\<close>.
\<close>

record ('w, 'e) API =
  NewHost :: "string \<Rightarrow> string \<Rightarrow> 'w \<Rightarrow> ('e + ('w, 'e) Host) \<times> 'w"
  Exists :: "string \<Rightarrow> 'w \<Rightarrow> ('e + bool) \<times> 'w"
  Create :: "('w, 'e) Host \<Rightarrow> 'w \<Rightarrow> ('e option \<times> ('w, 'e) Host) \<times> 'w"
  GetMachinesDir :: "'w \<Rightarrow> string \<times> 'w"
  Save :: "('w, 'e) Host \<Rightarrow> 'w \<Rightarrow> ('e option \<times> ('w, 'e) Host) \<times> 'w"

text \<open>
  The package-level collaborators: \<^verbatim>\<open>host.ValidateHostName\<close>,
  \<^verbatim>\<open>mcnerror.ErrInvalidHostname\<close>, \<^verbatim>\<open>json.Marshal\<close> (on a \<^verbatim>\<open>BaseDriver\<close>),
  \<^verbatim>\<open>mcndirs.GetMachineCertDir\<close>, \<^verbatim>\<open>filepath.Join\<close>, \<^verbatim>\<open>os.Args[0]\<close>, and the
  \<^verbatim>\<open>Error()\<close> method of the collaborators' error values.
\<close>

record 'e deps =
  ValidateHostName :: "string \<Rightarrow> bool"
  ErrInvalidHostname :: 'e
  Marshal :: "BaseDriver \<Rightarrow> 'e + string"
  GetMachineCertDir :: string
  Join :: "string list \<Rightarrow> string"
  Args0 :: string
  Error :: "'e \<Rightarrow> string"

text \<open>
  The calls the workflow makes on the API, the driver, the clock and the logger, each
  with its arguments and what it returned, in the order they are made.
  \<open>Ev_SetConfigFromFlags\<close> names the driver it is called on; \<open>Ev_Create\<close> holds the host
  handed to \<^verbatim>\<open>Create\<close>, the error returned, and the host as \<^verbatim>\<open>Create\<close> left it.
\<close>

datatype ('w, 'e) event =
    is_NewHost: Ev_NewHost string string "'e + ('w, 'e) Host"
  | is_Exists: Ev_Exists string "'e + bool"
  | is_SetConfigFromFlags: Ev_SetConfigFromFlags "('w, 'e) Driver" DriverOptions "'e option"
  | is_Create: Ev_Create "('w, 'e) Host" "'e option" "('w, 'e) Host"
  | is_Sleep: Ev_Sleep nat
  | is_GetMachinesDir: Ev_GetMachinesDir string
  | is_Save: Ev_Save "('w, 'e) Host" "'e option"
  | is_Printf: Ev_Printf string

subsection \<open>The workflow\<close>

text \<open>The literal \<^verbatim>\<open>opt := &createOptions{...}\<close> of lines 80-88; unset fields are zero.\<close>

definition opt_literal :: createOptions where
  "opt_literal =
     \<lparr> createOptions.Name = ''todoname'',
       createOptions.DriverName = ''virtualbox'',
       createOptions.StorePath = ''todo'',
       createOptions.CaCertPath = ''ca.pem'',
       createOptions.CaPrivateKeyPath = ''ca-key.pem'',
       createOptions.ClientCertPath = ''cert.pem'',
       createOptions.ClientKeyPath = ''key.pem'',
       createOptions.ServerCertPath = '''',
       createOptions.ServerKeyPath = '''',
       createOptions.ServerCertSANs = [] \<rparr>"

text \<open>
  Lines 90-179 of \<^verbatim>\<open>cmdCreateInner\<close>, for any value of \<^verbatim>\<open>opt\<close>. The result is the
  returned error (\<open>None\<close> for nil), the calls made, and the outside state at the end.
  After \<^verbatim>\<open>api.Create(h)\<close> the name \<open>h'\<close> is the host behind the pointer \<^verbatim>\<open>h\<close> as
  \<^verbatim>\<open>Create\<close> left it: lines 160-169 and 173 read it there.
\<close>

definition cmdCreateInner_opt ::
  "'e deps \<Rightarrow> ('w, 'e) API \<Rightarrow> createOptions \<Rightarrow> 'w
     \<Rightarrow> 'e go_error option \<times> ('w, 'e) event list \<times> 'w" where
  "cmdCreateInner_opt d api opt w0 =
    (if \<not> ValidateHostName d (createOptions.Name opt) then
       (Some (errorString (''Error creating machine: '' @ Error d (ErrInvalidHostname d))), [], w0)
     else
     (case Marshal d \<lparr> MachineName = createOptions.Name opt,
                       BaseDriver.StorePath = createOptions.StorePath opt \<rparr> of
       Inl err \<Rightarrow>
         (Some (errorString (''Error attempting to marshal bare driver data: '' @ Error d err)),
          [], w0)
     | Inr rawDriver \<Rightarrow>
     (case NewHost api (createOptions.DriverName opt) rawDriver w0 of
       (Inl err, w1) \<Rightarrow>
         (Some (errorString (''Error getting new host: '' @ Error d err)),
          [Ev_NewHost (createOptions.DriverName opt) rawDriver (Inl err)], w1)
     | (Inr h0, w1) \<Rightarrow>
     (let t1 = [Ev_NewHost (createOptions.DriverName opt) rawDriver (Inr h0)];
         h = h0\<lparr> HostOptions := Some
               \<lparr> AuthOptions =
                   \<lparr> CertDir = GetMachineCertDir d,
                     auth_Options.CaCertPath = createOptions.CaCertPath opt,
                     auth_Options.CaPrivateKeyPath = createOptions.CaPrivateKeyPath opt,
                     auth_Options.ClientCertPath = createOptions.ClientCertPath opt,
                     auth_Options.ClientKeyPath = createOptions.ClientKeyPath opt,
                     auth_Options.ServerCertPath = createOptions.ServerCertPath opt,
                     auth_Options.ServerKeyPath = createOptions.ServerKeyPath opt,
                     auth_Options.StorePath = createOptions.StorePath opt,
                     auth_Options.ServerCertSANs = createOptions.ServerCertSANs opt \<rparr>,
                 EngineOptions =
                   \<lparr> ArbitraryFlags = [''TODO''],
                     Env = [''TODO''],
                     InsecureRegistry = [''TODO''],
                     Labels = [''TODO''],
                     RegistryMirror = [''TODO''],
                     StorageDriver = ''TODO'',
                     TLSVerify = True,
                     InstallURL = ''TODO'' \<rparr>,
                 SwarmOptions = \<lparr> IsSwarm = False \<rparr> \<rparr> \<rparr>
      in
     (case Exists api (Host.Name h) w1 of
       (Inl err, w2) \<Rightarrow>
         (Some (errorString (''Error checking if host exists: '' @ Error d err)),
          t1 @ [Ev_Exists (Host.Name h) (Inl err)], w2)
     | (Inr exists, w2) \<Rightarrow>
     (let t2 = t1 @ [Ev_Exists (Host.Name h) (Inr exists)] in
     if exists then (Some (ErrHostAlreadyExists (Host.Name h)), t2, w2)
     else
     (case SetConfigFromFlags (Driver h) driverOpts w2 of
       (Some err, w3) \<Rightarrow>
         (Some (errorString
            (''Error setting machine configuration from flags provided: '' @ Error d err)),
          t2 @ [Ev_SetConfigFromFlags (Driver h) driverOpts (Some err)], w3)
     | (None, w3) \<Rightarrow>
     (let t3 = t2 @ [Ev_SetConfigFromFlags (Driver h) driverOpts None] in
     (case Create api h w3 of
       ((Some err, h'), w4) \<Rightarrow>
         (let t4 = t3 @ [Ev_Create h (Some err) h', Ev_Sleep 2] in
          if Host.DriverName h' = ''virtualbox'' then
            (case GetMachinesDir api w4 of
               (dir, w5) \<Rightarrow>
                 (Some (CrashError err ''Create'' ''api.performCreate'' (Host.DriverName h')
                    (Join d [dir, Host.Name h', Host.Name h', ''Logs'', ''VBox.log''])),
                  t4 @ [Ev_GetMachinesDir dir], w5))
          else
            (Some (CrashError err ''Create'' ''api.performCreate'' (Host.DriverName h') ''''),
             t4, w4))
     | ((None, h'), w4) \<Rightarrow>
     (let t4 = t3 @ [Ev_Create h None h'] in
     (case Save api h' w4 of
       ((Some err, h''), w5) \<Rightarrow>
         (Some (errorString (''Error attempting to save store: '' @ Error d err)),
          t4 @ [Ev_Save h' (Some err)], w5)
     | ((None, h''), w5) \<Rightarrow>
         (None,
          t4 @ [Ev_Save h' None,
                Ev_Printf (''To see how to connect your Docker Client to the Docker Engine running on this virtual machine, run: ''
                           @ Args0 d @ '' env '' @ createOptions.Name opt)],
          w5))))))))))))"

text \<open>\<^verbatim>\<open>cmdCreateInner\<close> itself: the body on the literal of lines 80-88.\<close>

definition cmdCreateInner ::
  "'e deps \<Rightarrow> ('w, 'e) API \<Rightarrow> 'w \<Rightarrow> 'e go_error option \<times> ('w, 'e) event list \<times> 'w" where
  "cmdCreateInner d api w0 = cmdCreateInner_opt d api opt_literal w0"

text \<open>The three components of a run, by name.\<close>

definition returned :: "'e deps \<Rightarrow> ('w, 'e) API \<Rightarrow> createOptions \<Rightarrow> 'w \<Rightarrow> 'e go_error option" where
  "returned d api opt w0 = fst (cmdCreateInner_opt d api opt w0)"

definition calls :: "'e deps \<Rightarrow> ('w, 'e) API \<Rightarrow> createOptions \<Rightarrow> 'w \<Rightarrow> ('w, 'e) event list" where
  "calls d api opt w0 = fst (snd (cmdCreateInner_opt d api opt w0))"

definition final :: "'e deps \<Rightarrow> ('w, 'e) API \<Rightarrow> createOptions \<Rightarrow> 'w \<Rightarrow> 'w" where
  "final d api opt w0 = snd (snd (cmdCreateInner_opt d api opt w0))"

subsection \<open>Vocabulary of the claims\<close>

text \<open>
  \<open>precedes P Q tr\<close>: every call of \<open>tr\<close> that satisfies \<open>Q\<close> comes after an earlier
  call that satisfies \<open>P\<close>.
\<close>

fun precedes :: "('a \<Rightarrow> bool) \<Rightarrow> ('a \<Rightarrow> bool) \<Rightarrow> 'a list \<Rightarrow> bool" where
  "precedes P Q [] = True"
| "precedes P Q (x # xs) = (\<not> Q x \<and> (P x \<or> precedes P Q xs))"

text \<open>
  The output of the Options Builder for a request, in the spec's words: the
  AuthOptions take the certificate directory from the ambient default and every other
  field from the request's field of the same name; the EngineOptions and SwarmOptions
  are the fixed values built for every request.
\<close>

definition Options_Builder :: "'e deps \<Rightarrow> createOptions \<Rightarrow> host_Options" where
  "Options_Builder d req =
     \<lparr> AuthOptions =
         \<lparr> CertDir = GetMachineCertDir d,
           auth_Options.CaCertPath = createOptions.CaCertPath req,
           auth_Options.CaPrivateKeyPath = createOptions.CaPrivateKeyPath req,
           auth_Options.ClientCertPath = createOptions.ClientCertPath req,
           auth_Options.ClientKeyPath = createOptions.ClientKeyPath req,
           auth_Options.ServerCertPath = createOptions.ServerCertPath req,
           auth_Options.ServerKeyPath = createOptions.ServerKeyPath req,
           auth_Options.StorePath = createOptions.StorePath req,
           auth_Options.ServerCertSANs = createOptions.ServerCertSANs req \<rparr>,
       EngineOptions =
         \<lparr> ArbitraryFlags = [''TODO''], Env = [''TODO''], InsecureRegistry = [''TODO''],
           Labels = [''TODO''], RegistryMirror = [''TODO''], StorageDriver = ''TODO'',
           TLSVerify = True, InstallURL = ''TODO'' \<rparr>,
       SwarmOptions = \<lparr> IsSwarm = False \<rparr> \<rparr>"

text \<open>
  \<open>replays api w tr w'\<close>: the calls of \<open>tr\<close>, made in this order on the collaborators
  from the outside state \<open>w\<close>, return what \<open>tr\<close> says they returned and leave the
  outside state \<open>w'\<close>. Sleeping and logging leave the outside state as it is.
\<close>

fun replays :: "('w, 'e) API \<Rightarrow> 'w \<Rightarrow> ('w, 'e) event list \<Rightarrow> 'w \<Rightarrow> bool" where
  "replays api w [] w' = (w' = w)"
| "replays api w (Ev_NewHost driverName raw r # tr) w' =
     (fst (NewHost api driverName raw w) = r
      \<and> replays api (snd (NewHost api driverName raw w)) tr w')"
| "replays api w (Ev_Exists name r # tr) w' =
     (fst (Exists api name w) = r \<and> replays api (snd (Exists api name w)) tr w')"
| "replays api w (Ev_SetConfigFromFlags driver flags r # tr) w' =
     (fst (SetConfigFromFlags driver flags w) = r
      \<and> replays api (snd (SetConfigFromFlags driver flags w)) tr w')"
| "replays api w (Ev_Create h r h' # tr) w' =
     (fst (Create api h w) = (r, h') \<and> replays api (snd (Create api h w)) tr w')"
| "replays api w (Ev_Sleep seconds # tr) w' = replays api w tr w'"
| "replays api w (Ev_GetMachinesDir dir # tr) w' =
     (fst (GetMachinesDir api w) = dir \<and> replays api (snd (GetMachinesDir api w)) tr w')"
| "replays api w (Ev_Save h r # tr) w' =
     (fst (fst (Save api h w)) = r \<and> replays api (snd (Save api h w)) tr w')"
| "replays api w (Ev_Printf line # tr) w' = replays api w tr w'"

text \<open>
  \<open>preserves obs f\<close>: the call \<open>f\<close> leaves the part \<open>obs\<close> of the outside state (the
  records of the store, say) as it found it. \<open>only_Save_writes api obs\<close>: every
  collaborator the workflow calls, but for \<^verbatim>\<open>Save\<close>, preserves \<open>obs\<close>; for the driver this
  is asked of the drivers of the hosts that the registry returns.
\<close>

definition preserves :: "('w \<Rightarrow> 'a) \<Rightarrow> ('w \<Rightarrow> 'r \<times> 'w) \<Rightarrow> bool" where
  "preserves obs f = (\<forall>w. obs (snd (f w)) = obs w)"

definition only_Save_writes :: "('w, 'e) API \<Rightarrow> ('w \<Rightarrow> 'a) \<Rightarrow> bool" where
  "only_Save_writes api obs =
     ((\<forall>driverName raw. preserves obs (NewHost api driverName raw))
      \<and> (\<forall>name. preserves obs (Exists api name))
      \<and> (\<forall>driverName raw w h flags. fst (NewHost api driverName raw w) = Inr h
            \<longrightarrow> preserves obs (SetConfigFromFlags (Driver h) flags))
      \<and> (\<forall>h. preserves obs (Create api h))
      \<and> preserves obs (GetMachinesDir api))"

subsection \<open>Scripted collaborators\<close>

text \<open>
  A small concrete world for running the workflow: the names recorded in the store and
  the paths present on disk. Errors are their messages. The registry names the host
  after the request, the store answers and the driver behaves as scripted, \<open>Create\<close>
  leaves the host as it is, and a successful \<open>Save\<close> records the host's name.
\<close>

record world =
  store :: "string list"
  files :: "string list"

definition scripted_deps :: "string deps" where
  "scripted_deps =
     \<lparr> ValidateHostName = (\<lambda>name. name \<noteq> []),
       ErrInvalidHostname = ''Invalid hostname specified'',
       Marshal = (\<lambda>b. Inr (MachineName b)),
       GetMachineCertDir = ''/certs'',
       Join = (\<lambda>elems. case elems of [] \<Rightarrow> [] | e # es \<Rightarrow> foldl (\<lambda>p q. p @ ''/'' @ q) e es),
       Args0 = ''server-machine'',
       Error = (\<lambda>e. e) \<rparr>"

definition scripted_driver :: "string option \<Rightarrow> (world, string) Driver" where
  "scripted_driver config_r = \<lparr> SetConfigFromFlags = (\<lambda>flags w. (config_r, w)) \<rparr>"

definition scripted_api ::
  "string + bool \<Rightarrow> string option \<Rightarrow> string option \<Rightarrow> string option \<Rightarrow> (world, string) API" where
  "scripted_api exists_r config_r create_r save_r =
     \<lparr> NewHost = (\<lambda>driverName rawDriver w.
         (Inr \<lparr> Host.Name = rawDriver, Host.DriverName = driverName,
                Driver = scripted_driver config_r, HostOptions = None \<rparr>, w)),
       Exists = (\<lambda>name w. (exists_r, w)),
       Create = (\<lambda>h w. ((create_r, h), w)),
       GetMachinesDir = (\<lambda>w. (''/machines'', w)),
       Save = (\<lambda>h w. ((save_r, h),
                 if save_r = None then w\<lparr> store := Host.Name h # store w \<rparr> else w)) \<rparr>"

text \<open>
  Three other collaborators. \<open>recording_api\<close>: a \<open>Create\<close> that records the host in the
  store before it provisions, and then fails. \<open>rewriting_api\<close>: a \<open>Create\<close> that succeeds
  and, through the pointer, moves the CA certificate path of the host's options.
  \<open>renaming_api\<close>: a registry whose host has its own name and driver name, whatever was
  asked for, with the store answering and \<open>Create\<close> failing as scripted.
\<close>

definition recording_api :: "(world, string) API" where
  "recording_api =
     (scripted_api (Inr False) None None None)
       \<lparr> Create := (\<lambda>h w. ((Some ''disk full'', h), w\<lparr> store := Host.Name h # store w \<rparr>)) \<rparr>"

definition rewriting_api :: "(world, string) API" where
  "rewriting_api =
     (scripted_api (Inr False) None None None)
       \<lparr> Create := (\<lambda>h w.
           ((None,
             h\<lparr> HostOptions :=
                  map_option (\<lambda>ho. ho\<lparr> AuthOptions :=
                     (AuthOptions ho)\<lparr> auth_Options.CaCertPath := ''/machines/dev1/ca.pem'' \<rparr> \<rparr>)
                    (HostOptions h) \<rparr>), w)) \<rparr>"

definition other_host :: "(world, string) Host" where
  "other_host =
     \<lparr> Host.Name = ''other'', Host.DriverName = ''amazonec2'',
       Driver = scripted_driver None, HostOptions = None \<rparr>"

definition renaming_api :: "string + bool \<Rightarrow> string option \<Rightarrow> (world, string) API" where
  "renaming_api exists_r create_r =
     (scripted_api exists_r None create_r None)
       \<lparr> NewHost := (\<lambda>driverName rawDriver w. (Inr other_host, w)) \<rparr>"

text \<open>The request of the spec's scenarios A to D.\<close>

definition dev1 :: createOptions where
  "dev1 = opt_literal\<lparr> createOptions.Name := ''dev1'', createOptions.StorePath := ''/store/dev1'' \<rparr>"

definition empty_world :: world where
  "empty_world = \<lparr> store = [], files = [] \<rparr>"

text \<open>The host of the request \<open>dev1\<close> as the scripted registry makes it, and with its options.\<close>

definition dev1_host :: "string option \<Rightarrow> (world, string) Host" where
  "dev1_host config_r =
     \<lparr> Host.Name = ''dev1'', Host.DriverName = ''virtualbox'',
       Driver = scripted_driver config_r, HostOptions = None \<rparr>"

definition dev1_ready :: "(world, string) Host" where
  "dev1_ready = (dev1_host None)\<lparr> HostOptions := Some (Options_Builder scripted_deps dev1) \<rparr>"

text \<open>
  The host \<open>dev1_ready\<close> as the \<open>Create\<close> of \<open>rewriting_api\<close> leaves it, and the host of
  \<open>renaming_api\<close> with the options of the request \<open>dev1\<close>.
\<close>

definition dev1_rewritten :: "(world, string) Host" where
  "dev1_rewritten =
     (dev1_host None)\<lparr> HostOptions := Some
        ((Options_Builder scripted_deps dev1)\<lparr> AuthOptions :=
           (AuthOptions (Options_Builder scripted_deps dev1))
             \<lparr> auth_Options.CaCertPath := ''/machines/dev1/ca.pem'' \<rparr> \<rparr>) \<rparr>"

definition other_ready :: "(world, string) Host" where
  "other_ready = other_host\<lparr> HostOptions := Some (Options_Builder scripted_deps dev1) \<rparr>"

section \<open>Scenarios\<close>

lemmas run_defs = returned_def calls_def final_def cmdCreateInner_opt_def Let_def

lemmas scripted_defs = scripted_deps_def scripted_api_def scripted_driver_def dev1_def
  opt_literal_def empty_world_def dev1_host_def dev1_ready_def Options_Builder_def
  recording_api_def rewriting_api_def renaming_api_def other_host_def dev1_rewritten_def
  other_ready_def

lemma scenario_A:
  "returned scripted_deps (scripted_api (Inr False) None None None) dev1 empty_world = None"
  "store (final scripted_deps (scripted_api (Inr False) None None None) dev1 empty_world) = [''dev1'']"
  by (simp_all add: run_defs scripted_defs)

lemma scenario_B:
  "cmdCreateInner_opt scripted_deps (scripted_api (Inr True) None None None) dev1 empty_world =
     (Some (ErrHostAlreadyExists ''dev1''),
      [Ev_NewHost ''virtualbox'' ''dev1'' (Inr (dev1_host None)), Ev_Exists ''dev1'' (Inr True)],
      empty_world)"
  by (simp add: run_defs scripted_defs)

lemma scenario_C:
  "returned scripted_deps (scripted_api (Inr False) None (Some ''disk full'') None) dev1
     (empty_world\<lparr> files := [''/machines/dev1/dev1/Logs/VBox.log''] \<rparr>) =
   Some (CrashError ''disk full'' ''Create'' ''api.performCreate'' ''virtualbox''
           ''/machines/dev1/dev1/Logs/VBox.log'')"
  by (simp add: run_defs scripted_defs)

lemma scenario_D:
  "returned scripted_deps (scripted_api (Inr False) None None (Some ''disk full'')) dev1 empty_world =
   Some (errorString ''Error attempting to save store: disk full'')"
  by (simp add: run_defs scripted_defs)

text \<open>The full runs of the scripted collaborators that the claims are tried on.\<close>

lemma run_A:
  "cmdCreateInner_opt scripted_deps (scripted_api (Inr False) None None None) dev1 empty_world =
     (None,
      [Ev_NewHost ''virtualbox'' ''dev1'' (Inr (dev1_host None)),
       Ev_Exists ''dev1'' (Inr False),
       Ev_SetConfigFromFlags (scripted_driver None) driverOpts None,
       Ev_Create dev1_ready None dev1_ready,
       Ev_Save dev1_ready None,
       Ev_Printf ''To see how to connect your Docker Client to the Docker Engine running on this virtual machine, run: server-machine env dev1''],
      empty_world\<lparr> store := [''dev1''] \<rparr>)"
  by (simp add: run_defs scripted_defs)

lemma run_C:
  "cmdCreateInner_opt scripted_deps (scripted_api (Inr False) None (Some ''disk full'') None) dev1 empty_world =
     (Some (CrashError ''disk full'' ''Create'' ''api.performCreate'' ''virtualbox''
              ''/machines/dev1/dev1/Logs/VBox.log''),
      [Ev_NewHost ''virtualbox'' ''dev1'' (Inr (dev1_host None)),
       Ev_Exists ''dev1'' (Inr False),
       Ev_SetConfigFromFlags (scripted_driver None) driverOpts None,
       Ev_Create dev1_ready (Some ''disk full'') dev1_ready,
       Ev_Sleep 2,
       Ev_GetMachinesDir ''/machines''],
      empty_world)"
  by (simp add: run_defs scripted_defs)

lemma run_D:
  "cmdCreateInner_opt scripted_deps (scripted_api (Inr False) None None (Some ''disk full'')) dev1 empty_world =
     (Some (errorString ''Error attempting to save store: disk full''),
      [Ev_NewHost ''virtualbox'' ''dev1'' (Inr (dev1_host None)),
       Ev_Exists ''dev1'' (Inr False),
       Ev_SetConfigFromFlags (scripted_driver None) driverOpts None,
       Ev_Create dev1_ready None dev1_ready,
       Ev_Save dev1_ready (Some ''disk full'')],
      empty_world)"
  by (simp add: run_defs scripted_defs)

lemma run_recording:
  "cmdCreateInner_opt scripted_deps recording_api dev1 empty_world =
     (Some (CrashError ''disk full'' ''Create'' ''api.performCreate'' ''virtualbox''
              ''/machines/dev1/dev1/Logs/VBox.log''),
      [Ev_NewHost ''virtualbox'' ''dev1'' (Inr (dev1_host None)),
       Ev_Exists ''dev1'' (Inr False),
       Ev_SetConfigFromFlags (scripted_driver None) driverOpts None,
       Ev_Create dev1_ready (Some ''disk full'') dev1_ready,
       Ev_Sleep 2,
       Ev_GetMachinesDir ''/machines''],
      empty_world\<lparr> store := [''dev1''] \<rparr>)"
  by (simp add: run_defs scripted_defs)

lemma run_rewriting:
  "cmdCreateInner_opt scripted_deps rewriting_api dev1 empty_world =
     (None,
      [Ev_NewHost ''virtualbox'' ''dev1'' (Inr (dev1_host None)),
       Ev_Exists ''dev1'' (Inr False),
       Ev_SetConfigFromFlags (scripted_driver None) driverOpts None,
       Ev_Create dev1_ready None dev1_rewritten,
       Ev_Save dev1_rewritten None,
       Ev_Printf ''To see how to connect your Docker Client to the Docker Engine running on this virtual machine, run: server-machine env dev1''],
      empty_world\<lparr> store := [''dev1''] \<rparr>)"
  by (simp add: run_defs scripted_defs)

lemma run_renamed_existing:
  "cmdCreateInner_opt scripted_deps (renaming_api (Inr True) None) dev1 empty_world =
     (Some (ErrHostAlreadyExists ''other''),
      [Ev_NewHost ''virtualbox'' ''dev1'' (Inr other_host), Ev_Exists ''other'' (Inr True)],
      empty_world)"
  by (simp add: run_defs scripted_defs)

lemma run_renamed_failed:
  "cmdCreateInner_opt scripted_deps (renaming_api (Inr False) (Some ''quota'')) dev1 empty_world =
     (Some (CrashError ''quota'' ''Create'' ''api.performCreate'' ''amazonec2'' []),
      [Ev_NewHost ''virtualbox'' ''dev1'' (Inr other_host),
       Ev_Exists ''other'' (Inr False),
       Ev_SetConfigFromFlags (scripted_driver None) driverOpts None,
       Ev_Create other_ready (Some ''quota'') other_ready,
       Ev_Sleep 2],
      empty_world)"
  by (simp add: run_defs scripted_defs)

lemma run_rejected:
  "cmdCreateInner_opt scripted_deps (scripted_api (Inr False) (Some ''bad flag'') None None) dev1 empty_world =
     (Some (errorString ''Error setting machine configuration from flags provided: bad flag''),
      [Ev_NewHost ''virtualbox'' ''dev1'' (Inr (dev1_host (Some ''bad flag''))),
       Ev_Exists ''dev1'' (Inr False),
       Ev_SetConfigFromFlags (scripted_driver (Some ''bad flag'')) driverOpts (Some ''bad flag'')],
      empty_world)"
  by (simp add: run_defs scripted_defs)

lemma run_store_offline:
  "cmdCreateInner_opt scripted_deps (scripted_api (Inl ''store offline'') None None None) dev1 empty_world =
     (Some (errorString ''Error checking if host exists: store offline''),
      [Ev_NewHost ''virtualbox'' ''dev1'' (Inr (dev1_host None)),
       Ev_Exists ''dev1'' (Inl ''store offline'')],
      empty_world)"
  by (simp add: run_defs scripted_defs)

section \<open>The runs of the workflow\<close>

lemmas out_defs = returned_def calls_def final_def

text \<open>
  Every run is one of ten: the workflow returns at the first step that fails, and the
  calls made up to there, with the states they were made in, are fixed by the path
  taken. \<open>ready\<close> is the registry's host with the built options attached, \<open>left\<close> the
  host as \<open>Create\<close> left it.
\<close>

lemma run_cases [case_names Invalid MarshalFailed NewHostFailed ExistsFailed AlreadyExists
    ConfigRejected CreateFailedVBox CreateFailedOther SaveFailed Done]:
  obtains
    "cmdCreateInner_opt d api opt w =
       (Some (errorString (''Error creating machine: '' @ Error d (ErrInvalidHostname d))), [], w)"
       "\<not> ValidateHostName d (createOptions.Name opt)"
  | err where
    "cmdCreateInner_opt d api opt w =
       (Some (errorString (''Error attempting to marshal bare driver data: '' @ Error d err)), [], w)"
  | raw err wa where
    "cmdCreateInner_opt d api opt w =
       (Some (errorString (''Error getting new host: '' @ Error d err)),
        [Ev_NewHost (createOptions.DriverName opt) raw (Inl err)], wa)"
    "NewHost api (createOptions.DriverName opt) raw w = (Inl err, wa)"
  | raw reg err wa wb where
    "cmdCreateInner_opt d api opt w =
       (Some (errorString (''Error checking if host exists: '' @ Error d err)),
        [Ev_NewHost (createOptions.DriverName opt) raw (Inr reg),
         Ev_Exists (Host.Name reg) (Inl err)], wb)"
    "NewHost api (createOptions.DriverName opt) raw w = (Inr reg, wa)"
    "Exists api (Host.Name reg) wa = (Inl err, wb)"
  | raw reg wa wb where
    "cmdCreateInner_opt d api opt w =
       (Some (ErrHostAlreadyExists (Host.Name reg)),
        [Ev_NewHost (createOptions.DriverName opt) raw (Inr reg),
         Ev_Exists (Host.Name reg) (Inr True)], wb)"
    "NewHost api (createOptions.DriverName opt) raw w = (Inr reg, wa)"
    "Exists api (Host.Name reg) wa = (Inr True, wb)"
  | raw reg err wa wb wc where
    "cmdCreateInner_opt d api opt w =
       (Some (errorString
          (''Error setting machine configuration from flags provided: '' @ Error d err)),
        [Ev_NewHost (createOptions.DriverName opt) raw (Inr reg),
         Ev_Exists (Host.Name reg) (Inr False),
         Ev_SetConfigFromFlags (Driver reg) driverOpts (Some err)], wc)"
    "NewHost api (createOptions.DriverName opt) raw w = (Inr reg, wa)"
    "Exists api (Host.Name reg) wa = (Inr False, wb)"
    "SetConfigFromFlags (Driver reg) driverOpts wb = (Some err, wc)"
  | raw reg ready err left dir wa wb wc wd we where
    "cmdCreateInner_opt d api opt w =
       (Some (CrashError err ''Create'' ''api.performCreate'' ''virtualbox''
          (Join d [dir, Host.Name left, Host.Name left, ''Logs'', ''VBox.log''])),
        [Ev_NewHost (createOptions.DriverName opt) raw (Inr reg),
         Ev_Exists (Host.Name reg) (Inr False),
         Ev_SetConfigFromFlags (Driver reg) driverOpts None,
         Ev_Create ready (Some err) left,
         Ev_Sleep 2,
         Ev_GetMachinesDir dir], we)"
    "ready = reg\<lparr>HostOptions := Some (Options_Builder d opt)\<rparr>"
    "NewHost api (createOptions.DriverName opt) raw w = (Inr reg, wa)"
    "Exists api (Host.Name reg) wa = (Inr False, wb)"
    "SetConfigFromFlags (Driver reg) driverOpts wb = (None, wc)"
    "Create api ready wc = ((Some err, left), wd)"
    "GetMachinesDir api wd = (dir, we)"
    "Host.DriverName left = ''virtualbox''"
  | raw reg ready err left wa wb wc wd where
    "cmdCreateInner_opt d api opt w =
       (Some (CrashError err ''Create'' ''api.performCreate'' (Host.DriverName left) ''''),
        [Ev_NewHost (createOptions.DriverName opt) raw (Inr reg),
         Ev_Exists (Host.Name reg) (Inr False),
         Ev_SetConfigFromFlags (Driver reg) driverOpts None,
         Ev_Create ready (Some err) left,
         Ev_Sleep 2], wd)"
    "ready = reg\<lparr>HostOptions := Some (Options_Builder d opt)\<rparr>"
    "NewHost api (createOptions.DriverName opt) raw w = (Inr reg, wa)"
    "Exists api (Host.Name reg) wa = (Inr False, wb)"
    "SetConfigFromFlags (Driver reg) driverOpts wb = (None, wc)"
    "Create api ready wc = ((Some err, left), wd)"
    "Host.DriverName left \<noteq> ''virtualbox''"
  | raw reg ready left err after wa wb wc wd we where
    "cmdCreateInner_opt d api opt w =
       (Some (errorString (''Error attempting to save store: '' @ Error d err)),
        [Ev_NewHost (createOptions.DriverName opt) raw (Inr reg),
         Ev_Exists (Host.Name reg) (Inr False),
         Ev_SetConfigFromFlags (Driver reg) driverOpts None,
         Ev_Create ready None left,
         Ev_Save left (Some err)], we)"
    "ready = reg\<lparr>HostOptions := Some (Options_Builder d opt)\<rparr>"
    "NewHost api (createOptions.DriverName opt) raw w = (Inr reg, wa)"
    "Exists api (Host.Name reg) wa = (Inr False, wb)"
    "SetConfigFromFlags (Driver reg) driverOpts wb = (None, wc)"
    "Create api ready wc = ((None, left), wd)"
    "Save api left wd = ((Some err, after), we)"
  | raw reg ready left after wa wb wc wd we where
    "cmdCreateInner_opt d api opt w =
       (None,
        [Ev_NewHost (createOptions.DriverName opt) raw (Inr reg),
         Ev_Exists (Host.Name reg) (Inr False),
         Ev_SetConfigFromFlags (Driver reg) driverOpts None,
         Ev_Create ready None left,
         Ev_Save left None,
         Ev_Printf (''To see how to connect your Docker Client to the Docker Engine running on this virtual machine, run: ''
                    @ Args0 d @ '' env '' @ createOptions.Name opt)], we)"
    "ready = reg\<lparr>HostOptions := Some (Options_Builder d opt)\<rparr>"
    "NewHost api (createOptions.DriverName opt) raw w = (Inr reg, wa)"
    "Exists api (Host.Name reg) wa = (Inr False, wb)"
    "SetConfigFromFlags (Driver reg) driverOpts wb = (None, wc)"
    "Create api ready wc = ((None, left), wd)"
    "Save api left wd = ((None, after), we)"
proof (cases "ValidateHostName d (createOptions.Name opt)")
  case False
  then show thesis
    using that(1) by (simp add: cmdCreateInner_opt_def)
next
  case valid: True
  show thesis
  proof (cases "Marshal d \<lparr> MachineName = createOptions.Name opt,
                           BaseDriver.StorePath = createOptions.StorePath opt \<rparr>")
    case (Inl err)
    with valid show thesis
      using that(2) [where err = err] by (simp add: cmdCreateInner_opt_def)
  next
    case marshal: (Inr raw)
    obtain ra wa where ra: "NewHost api (createOptions.DriverName opt) raw w = (ra, wa)"
      by (cases "NewHost api (createOptions.DriverName opt) raw w")
    show thesis
    proof (cases ra)
      case (Inl err)
      with valid marshal ra show thesis
        using that(3) [where raw = raw and err = err and wa = wa]
        by (simp add: cmdCreateInner_opt_def)
    next
      case registry: (Inr reg)
      define ready where "ready = reg\<lparr>HostOptions := Some (Options_Builder d opt)\<rparr>"
      obtain rb wb where rb: "Exists api (Host.Name reg) wa = (rb, wb)"
        by (cases "Exists api (Host.Name reg) wa")
      show thesis
      proof (cases rb)
        case (Inl err)
        with valid marshal ra registry rb show thesis
          using that(4) [where raw = raw and reg = reg and err = err and wa = wa and wb = wb]
          by (simp add: cmdCreateInner_opt_def Let_def)
      next
        case guard: (Inr exists)
        show thesis
        proof (cases exists)
          case True
          with valid marshal ra registry rb guard show thesis
            using that(5) [where raw = raw and reg = reg and wa = wa and wb = wb]
            by (simp add: cmdCreateInner_opt_def Let_def)
        next
          case fresh: False
          obtain rc wc where rc: "SetConfigFromFlags (Driver reg) driverOpts wb = (rc, wc)"
            by (cases "SetConfigFromFlags (Driver reg) driverOpts wb")
          show thesis
          proof (cases rc)
            case (Some err)
            with valid marshal ra registry rb guard fresh rc show thesis
              using that(6) [where raw = raw and reg = reg and err = err and wa = wa and wb = wb
                  and wc = wc]
              by (simp add: cmdCreateInner_opt_def Let_def)
          next
            case configured: None
            obtain rd left wd where rd: "Create api ready wc = ((rd, left), wd)"
              by (cases "Create api ready wc") auto
            show thesis
            proof (cases rd)
              case failed: (Some err)
              show thesis
              proof (cases "Host.DriverName left = ''virtualbox''")
                case True
                obtain dir we where dir: "GetMachinesDir api wd = (dir, we)"
                  by (cases "GetMachinesDir api wd")
                have "cmdCreateInner_opt d api opt w =
                   (Some (CrashError err ''Create'' ''api.performCreate'' ''virtualbox''
                      (Join d [dir, Host.Name left, Host.Name left, ''Logs'', ''VBox.log''])),
                    [Ev_NewHost (createOptions.DriverName opt) raw (Inr reg),
                     Ev_Exists (Host.Name reg) (Inr False),
                     Ev_SetConfigFromFlags (Driver reg) driverOpts None,
                     Ev_Create ready (Some err) left,
                     Ev_Sleep 2,
                     Ev_GetMachinesDir dir], we)"
                  using valid marshal ra registry rb guard fresh rc configured rd failed True dir
                  by (simp add: cmdCreateInner_opt_def Let_def ready_def Options_Builder_def)
                then show thesis
                  using ra registry rb guard fresh rc configured rd failed True dir
                  by (intro that(7) [where raw = raw and reg = reg and ready = ready and err = err
                        and left = left and dir = dir and wa = wa and wb = wb and wc = wc
                        and wd = wd and we = we]) (simp_all add: ready_def)
              next
                case False
                have "cmdCreateInner_opt d api opt w =
                   (Some (CrashError err ''Create'' ''api.performCreate'' (Host.DriverName left) ''''),
                    [Ev_NewHost (createOptions.DriverName opt) raw (Inr reg),
                     Ev_Exists (Host.Name reg) (Inr False),
                     Ev_SetConfigFromFlags (Driver reg) driverOpts None,
                     Ev_Create ready (Some err) left,
                     Ev_Sleep 2], wd)"
                  using valid marshal ra registry rb guard fresh rc configured rd failed False
                  by (simp add: cmdCreateInner_opt_def Let_def ready_def Options_Builder_def)
                then show thesis
                  using ra registry rb guard fresh rc configured rd failed False
                  by (intro that(8) [where raw = raw and reg = reg and ready = ready and err = err
                        and left = left and wa = wa and wb = wb and wc = wc and wd = wd])
                    (simp_all add: ready_def)
              qed
            next
              case created: None
              obtain re after we where re: "Save api left wd = ((re, after), we)"
                by (cases "Save api left wd") auto
              show thesis
              proof (cases re)
                case (Some err)
                have "cmdCreateInner_opt d api opt w =
                   (Some (errorString (''Error attempting to save store: '' @ Error d err)),
                    [Ev_NewHost (createOptions.DriverName opt) raw (Inr reg),
                     Ev_Exists (Host.Name reg) (Inr False),
                     Ev_SetConfigFromFlags (Driver reg) driverOpts None,
                     Ev_Create ready None left,
                     Ev_Save left (Some err)], we)"
                  using valid marshal ra registry rb guard fresh rc configured rd created re Some
                  by (simp add: cmdCreateInner_opt_def Let_def ready_def Options_Builder_def)
                then show thesis
                  using ra registry rb guard fresh rc configured rd created re Some
                  by (intro that(9) [where raw = raw and reg = reg and ready = ready and err = err
                        and left = left and after = after and wa = wa and wb = wb and wc = wc
                        and wd = wd and we = we]) (simp_all add: ready_def)
              next
                case None
                have "cmdCreateInner_opt d api opt w =
                   (None,
                    [Ev_NewHost (createOptions.DriverName opt) raw (Inr reg),
                     Ev_Exists (Host.Name reg) (Inr False),
                     Ev_SetConfigFromFlags (Driver reg) driverOpts None,
                     Ev_Create ready None left,
                     Ev_Save left None,
                     Ev_Printf (''To see how to connect your Docker Client to the Docker Engine running on this virtual machine, run: ''
                                @ Args0 d @ '' env '' @ createOptions.Name opt)], we)"
                  using valid marshal ra registry rb guard fresh rc configured rd created re None
                  by (simp add: cmdCreateInner_opt_def Let_def ready_def Options_Builder_def)
                then show thesis
                  using ra registry rb guard fresh rc configured rd created re None
                  by (intro that(10) [where raw = raw and reg = reg and ready = ready
                        and left = left and after = after and wa = wa and wb = wb and wc = wc
                        and wd = wd and we = we]) (simp_all add: ready_def)
              qed
            qed
          qed
        qed
      qed
    qed
  qed
qed


lemma precedes_nth:
  "precedes P Q xs = (\<forall>j<length xs. Q (xs ! j) \<longrightarrow> (\<exists>i<j. P (xs ! i)))"
proof (induction xs)
  case Nil
  show ?case by simp
next
  case (Cons x xs)
  show ?case
  proof (cases "P x")
    case True
    then show ?thesis by (auto simp: nth_Cons split: nat.splits)
  next
    case False
    have "(\<forall>j<length (x # xs). Q ((x # xs) ! j) \<longrightarrow> (\<exists>i<j. P ((x # xs) ! i))) =
          (\<not> Q x \<and> (\<forall>j<length xs. Q (xs ! j) \<longrightarrow> (\<exists>i<j. P (xs ! i))))"
      (is "?L = ?R")
    proof
      assume L: ?L
      have "\<not> Q x" using L by force
      moreover have "\<exists>i<j. P (xs ! i)" if "j < length xs" "Q (xs ! j)" for j
      proof -
        from L that obtain i where i: "i < Suc j" "P ((x # xs) ! i)" by force
        with False obtain k where "i = Suc k" by (cases i) auto
        with i show ?thesis by auto
      qed
      ultimately show ?R by blast
    next
      assume R: ?R
      show ?L
      proof (intro allI impI)
        fix j assume j: "j < length (x # xs)" "Q ((x # xs) ! j)"
        with R obtain k where k: "j = Suc k" by (cases j) auto
        with j R obtain i where "i < k" "P (xs ! i)" by auto
        then have "Suc i < j" "P ((x # xs) ! Suc i)" using k by auto
        then show "\<exists>i<j. P ((x # xs) ! i)" by blast
      qed
    qed
    with False Cons show ?thesis by simp
  qed
qed


text \<open>The outside state at the end of a run is what the logged calls made of it.\<close>

lemma run_replays: "replays api w (calls d api opt w) (final d api opt w)"
  by (cases rule: run_cases [of d api opt w]) (simp_all add: out_defs)

lemma preserves_step: "preserves obs f \<Longrightarrow> f w = (r, w') \<Longrightarrow> obs w' = obs w"
  by (auto simp: preserves_def dest: spec [of _ w])

lemma frame_NewHost:
  assumes "only_Save_writes api obs" "NewHost api driverName raw w = (r, w')"
  shows "obs w' = obs w"
proof -
  from assms(1) have "preserves obs (NewHost api driverName raw)"
    unfolding only_Save_writes_def by blast
  with assms(2) show ?thesis by (rule preserves_step [rotated])
qed

lemma frame_Exists:
  assumes "only_Save_writes api obs" "Exists api name w = (r, w')"
  shows "obs w' = obs w"
proof -
  from assms(1) have "preserves obs (Exists api name)"
    unfolding only_Save_writes_def by blast
  with assms(2) show ?thesis by (rule preserves_step [rotated])
qed

lemma frame_SetConfigFromFlags:
  assumes "only_Save_writes api obs" "NewHost api driverName raw w0 = (Inr h, w1)"
    "SetConfigFromFlags (Driver h) flags w = (r, w')"
  shows "obs w' = obs w"
proof -
  from assms(2) have "fst (NewHost api driverName raw w0) = Inr h" by simp
  with assms(1) have "preserves obs (SetConfigFromFlags (Driver h) flags)"
    unfolding only_Save_writes_def by blast
  with assms(3) show ?thesis by (rule preserves_step [rotated])
qed

lemma frame_Create:
  assumes "only_Save_writes api obs" "Create api h w = (r, w')"
  shows "obs w' = obs w"
proof -
  from assms(1) have "preserves obs (Create api h)"
    unfolding only_Save_writes_def by blast
  with assms(2) show ?thesis by (rule preserves_step [rotated])
qed

lemma frame_GetMachinesDir:
  assumes "only_Save_writes api obs" "GetMachinesDir api w = (r, w')"
  shows "obs w' = obs w"
proof -
  from assms(1) have "preserves obs (GetMachinesDir api)"
    unfolding only_Save_writes_def by blast
  with assms(2) show ?thesis by (rule preserves_step [rotated])
qed

text \<open>A run without a \<open>Save\<close> leaves what only \<open>Save\<close> writes as it was.\<close>

lemma run_frame:
  assumes only: "only_Save_writes api obs"
    and none: "filter is_Save (calls d api opt w) = []"
  shows "obs (final d api opt w) = obs w"
proof (cases rule: run_cases [of d api opt w])
  case Invalid
  then show ?thesis by (simp add: out_defs)
next
  case (MarshalFailed err)
  then show ?thesis by (simp add: out_defs)
next
  case (NewHostFailed raw err wa)
  from frame_NewHost [OF only NewHostFailed(2)] NewHostFailed(1)
  show ?thesis by (simp add: out_defs)
next
  case (ExistsFailed raw reg err wa wb)
  from frame_NewHost [OF only ExistsFailed(2)] frame_Exists [OF only ExistsFailed(3)]
    ExistsFailed(1)
  show ?thesis by (simp add: out_defs)
next
  case (AlreadyExists raw reg wa wb)
  from frame_NewHost [OF only AlreadyExists(2)] frame_Exists [OF only AlreadyExists(3)]
    AlreadyExists(1)
  show ?thesis by (simp add: out_defs)
next
  case (ConfigRejected raw reg err wa wb wc)
  from frame_NewHost [OF only ConfigRejected(2)] frame_Exists [OF only ConfigRejected(3)]
    frame_SetConfigFromFlags [OF only ConfigRejected(2) ConfigRejected(4)] ConfigRejected(1)
  show ?thesis by (simp add: out_defs)
next
  case (CreateFailedVBox raw reg ready err left dir wa wb wc wd we)
  from frame_NewHost [OF only CreateFailedVBox(3)] frame_Exists [OF only CreateFailedVBox(4)]
    frame_SetConfigFromFlags [OF only CreateFailedVBox(3) CreateFailedVBox(5)]
    frame_Create [OF only CreateFailedVBox(6)] frame_GetMachinesDir [OF only CreateFailedVBox(7)]
    CreateFailedVBox(1)
  show ?thesis by (simp add: out_defs)
next
  case (CreateFailedOther raw reg ready err left wa wb wc wd)
  from frame_NewHost [OF only CreateFailedOther(3)] frame_Exists [OF only CreateFailedOther(4)]
    frame_SetConfigFromFlags [OF only CreateFailedOther(3) CreateFailedOther(5)]
    frame_Create [OF only CreateFailedOther(6)] CreateFailedOther(1)
  show ?thesis by (simp add: out_defs)
next
  case (SaveFailed raw reg ready left err after wa wb wc wd we)
  with none show ?thesis by (simp add: out_defs)
next
  case (Done raw reg ready left after wa wb wc wd we)
  with none show ?thesis by (simp add: out_defs)
qed

section \<open>Claims\<close>

lemma calls_A:
  "calls scripted_deps (scripted_api (Inr False) None None None) dev1 empty_world =
     [Ev_NewHost ''virtualbox'' ''dev1'' (Inr (dev1_host None)),
      Ev_Exists ''dev1'' (Inr False),
      Ev_SetConfigFromFlags (scripted_driver None) driverOpts None,
      Ev_Create dev1_ready None dev1_ready,
      Ev_Save dev1_ready None,
      Ev_Printf ''To see how to connect your Docker Client to the Docker Engine running on this virtual machine, run: server-machine env dev1'']"
  by (simp add: calls_def run_A)

lemma calls_C:
  "calls scripted_deps (scripted_api (Inr False) None (Some ''disk full'') None) dev1 empty_world =
     [Ev_NewHost ''virtualbox'' ''dev1'' (Inr (dev1_host None)),
      Ev_Exists ''dev1'' (Inr False),
      Ev_SetConfigFromFlags (scripted_driver None) driverOpts None,
      Ev_Create dev1_ready (Some ''disk full'') dev1_ready,
      Ev_Sleep 2,
      Ev_GetMachinesDir ''/machines'']"
  by (simp add: calls_def run_C)

lemma calls_D:
  "calls scripted_deps (scripted_api (Inr False) None None (Some ''disk full'')) dev1 empty_world =
     [Ev_NewHost ''virtualbox'' ''dev1'' (Inr (dev1_host None)),
      Ev_Exists ''dev1'' (Inr False),
      Ev_SetConfigFromFlags (scripted_driver None) driverOpts None,
      Ev_Create dev1_ready None dev1_ready,
      Ev_Save dev1_ready (Some ''disk full'')]"
  by (simp add: calls_def run_D)

lemma scripted_only_Save_writes: "only_Save_writes (scripted_api exists_r config_r create_r save_r) store"
  by (auto simp: only_Save_writes_def preserves_def scripted_api_def scripted_driver_def)

text \<open>
  C1, as stated, fails. A \<open>Create\<close> that records the host in the store before it
  provisions, and then fails, leaves that record behind: the workflow returns the crash
  report and calls no \<open>Save\<close>, and the store that was empty holds \<open>dev1\<close>.
\<close>

theorem failed_creation_leaves_record_counterexample:
  "returned scripted_deps recording_api dev1 empty_world =
     Some (CrashError ''disk full'' ''Create'' ''api.performCreate'' ''virtualbox''
             ''/machines/dev1/dev1/Logs/VBox.log'')
   \<and> filter is_Save (calls scripted_deps recording_api dev1 empty_world) = []
   \<and> store empty_world = []
   \<and> store (final scripted_deps recording_api dev1 empty_world) = [''dev1'']"
  by (simp add: out_defs run_recording) (simp add: empty_world_def)

text \<open>
  C1, amended. The workflow calls \<open>Save\<close> if and only if the call of \<open>Create\<close>
  succeeded, and no run holds both a failed \<open>Create\<close> and a \<open>Save\<close>. The calls logged
  are the calls made: made in this order on the collaborators from the state at the
  start, they return what is logged and leave the state at the end, so a \<open>Save\<close> in
  the run is the store's \<open>Save\<close> applied to the host, and nothing but the logged calls
  has touched the outside state. Hence after a run without \<open>Save\<close>, a failed creation
  among them, whatever only \<open>Save\<close> writes is as it was at the start; a record is left
  only if one of the other collaborators wrote it.
\<close>

theorem Save_iff_Create_succeeded:
  "((\<exists>h r. Ev_Save h r \<in> set (calls d api opt w))
      = (\<exists>h h'. Ev_Create h None h' \<in> set (calls d api opt w)))
   \<and> \<not> (\<exists>h e h' hs r. Ev_Create h (Some e) h' \<in> set (calls d api opt w)
                       \<and> Ev_Save hs r \<in> set (calls d api opt w))
   \<and> replays api w (calls d api opt w) (final d api opt w)
   \<and> (only_Save_writes api obs \<and> filter is_Save (calls d api opt w) = []
        \<longrightarrow> obs (final d api opt w) = obs w)"
proof -
  have "((\<exists>h r. Ev_Save h r \<in> set (calls d api opt w))
      = (\<exists>h h'. Ev_Create h None h' \<in> set (calls d api opt w)))
   \<and> \<not> (\<exists>h e h' hs r. Ev_Create h (Some e) h' \<in> set (calls d api opt w)
                       \<and> Ev_Save hs r \<in> set (calls d api opt w))"
    by (cases rule: run_cases [of d api opt w]) (simp_all add: out_defs)
  with run_replays [of api w d opt] run_frame [of api obs d opt w]
  show ?thesis by blast
qed

theorem Save_iff_Create_succeeded_witness:
  "(\<exists>h r. Ev_Save h r \<in> set (calls scripted_deps (scripted_api (Inr False) None None None) dev1 empty_world))
   \<and> (\<exists>h h'. Ev_Create h None h'
         \<in> set (calls scripted_deps (scripted_api (Inr False) None None None) dev1 empty_world))
   \<and> replays (scripted_api (Inr False) None None None) empty_world
        (calls scripted_deps (scripted_api (Inr False) None None None) dev1 empty_world)
        (empty_world\<lparr> store := [''dev1''] \<rparr>)
   \<and> filter is_Save
        (calls scripted_deps (scripted_api (Inr False) None (Some ''disk full'') None) dev1 empty_world) = []
   \<and> store (final scripted_deps (scripted_api (Inr False) None (Some ''disk full'') None) dev1 empty_world)
       = store empty_world"
proof -
  have saved: "\<exists>h r. Ev_Save h r
      \<in> set (calls scripted_deps (scripted_api (Inr False) None None None) dev1 empty_world)"
    by (simp add: calls_A)
  have end_A: "final scripted_deps (scripted_api (Inr False) None None None) dev1 empty_world
      = empty_world\<lparr> store := [''dev1''] \<rparr>"
    by (simp add: final_def run_A)
  have only: "only_Save_writes (scripted_api (Inr False) None (Some ''disk full'') None) store"
    by (rule scripted_only_Save_writes)
  have none: "filter is_Save
        (calls scripted_deps (scripted_api (Inr False) None (Some ''disk full'') None) dev1 empty_world) = []"
    by (simp add: calls_C)
  from Save_iff_Create_succeeded
         [of scripted_deps "scripted_api (Inr False) None None None" dev1 empty_world store]
    saved end_A
  have "(\<exists>h h'. Ev_Create h None h'
         \<in> set (calls scripted_deps (scripted_api (Inr False) None None None) dev1 empty_world))
    \<and> replays (scripted_api (Inr False) None None None) empty_world
        (calls scripted_deps (scripted_api (Inr False) None None None) dev1 empty_world)
        (empty_world\<lparr> store := [''dev1''] \<rparr>)"
    by simp
  moreover from Save_iff_Create_succeeded
         [of scripted_deps "scripted_api (Inr False) None (Some ''disk full'') None" dev1
            empty_world store] only none
  have "store (final scripted_deps (scripted_api (Inr False) None (Some ''disk full'') None) dev1 empty_world)
       = store empty_world"
    by blast
  ultimately show ?thesis using saved only none by blast
qed

text \<open>
  C2, as stated, fails. \<open>Create\<close> is handed the pointer to the host and may write
  through it. With a \<open>Create\<close> that succeeds and moves the CA certificate path, the one
  \<open>Save\<close> of the run receives the host as \<open>Create\<close> left it, and its \<open>HostOptions\<close> are
  not the Options Builder's output for the request.
\<close>

theorem saved_options_after_Create_counterexample:
  "returned scripted_deps rewriting_api dev1 empty_world = None
   \<and> filter is_Save (calls scripted_deps rewriting_api dev1 empty_world) = [Ev_Save dev1_rewritten None]
   \<and> HostOptions dev1_rewritten \<noteq> Some (Options_Builder scripted_deps dev1)"
  by (simp add: out_defs run_rewriting)
     (simp add: dev1_rewritten_def Options_Builder_def dev1_def opt_literal_def)

text \<open>
  C2, amended. When \<open>Create\<close> succeeds, the host handed to \<open>Create\<close> has the Options
  Builder's output for the request as its \<open>HostOptions\<close>, and \<open>Save\<close> is called exactly
  once: it is the store's \<open>Save\<close>, applied in the state that \<open>Create\<close> left to the host as
  \<open>Create\<close> left it, and the state it leaves is the state at the end. So the host
  passed to \<open>Save\<close> has the built \<open>HostOptions\<close> whenever \<open>Create\<close> leaves them as they were.
\<close>

theorem Save_once_with_built_options:
  assumes "Ev_Create h None h' \<in> set (calls d api opt w)"
  shows "HostOptions h = Some (Options_Builder d opt)
         \<and> (\<exists>r after wc wd.
               filter is_Save (calls d api opt w) = [Ev_Save h' r]
               \<and> Create api h wc = ((None, h'), wd)
               \<and> Save api h' wd = ((r, after), final d api opt w))
         \<and> (HostOptions h' = HostOptions h \<longrightarrow> HostOptions h' = Some (Options_Builder d opt))"
proof -
  have "HostOptions h = Some (Options_Builder d opt)
         \<and> (\<exists>r after wc wd.
               filter is_Save (calls d api opt w) = [Ev_Save h' r]
               \<and> Create api h wc = ((None, h'), wd)
               \<and> Save api h' wd = ((r, after), final d api opt w))"
  proof (cases rule: run_cases [of d api opt w])
    case (SaveFailed raw reg ready left err after wa wb wc wd we)
    with assms have "h = ready" "h' = left" by (simp_all add: out_defs)
    with SaveFailed show ?thesis by (auto simp: out_defs)
  next
    case (Done raw reg ready left after wa wb wc wd we)
    with assms have "h = ready" "h' = left" by (simp_all add: out_defs)
    with Done show ?thesis by (auto simp: out_defs)
  qed (use assms in \<open>simp_all add: out_defs\<close>)
  then show ?thesis by simp
qed

theorem Save_once_with_built_options_witness:
  "Ev_Create dev1_ready None dev1_ready
     \<in> set (calls scripted_deps (scripted_api (Inr False) None None None) dev1 empty_world)
   \<and> filter is_Save (calls scripted_deps (scripted_api (Inr False) None None None) dev1 empty_world) =
       [Ev_Save dev1_ready None]
   \<and> HostOptions dev1_ready = Some (Options_Builder scripted_deps dev1)"
proof -
  have created: "Ev_Create dev1_ready None dev1_ready
     \<in> set (calls scripted_deps (scripted_api (Inr False) None None None) dev1 empty_world)"
    by (simp add: calls_A)
  have once: "filter is_Save (calls scripted_deps (scripted_api (Inr False) None None None) dev1 empty_world) =
       [Ev_Save dev1_ready None]"
    by (simp add: calls_A)
  from Save_once_with_built_options [OF created]
  have "HostOptions dev1_ready = Some (Options_Builder scripted_deps dev1)"
    by blast
  with created once show ?thesis by blast
qed

text \<open>
  C3. When the name fails \<open>ValidateHostName\<close>, the workflow returns the error made from
  \<open>ErrInvalidHostname\<close> and has called nothing: no registry, store or driver call is
  made, and the outside state is as it was.
\<close>

theorem invalid_name_fails_before_any_call:
  assumes "\<not> ValidateHostName d (createOptions.Name opt)"
  shows "returned d api opt w =
           Some (errorString (''Error creating machine: '' @ Error d (ErrInvalidHostname d)))
         \<and> calls d api opt w = []
         \<and> final d api opt w = w"
  using assms by (simp add: out_defs cmdCreateInner_opt_def)

theorem invalid_name_fails_before_any_call_witness:
  "\<not> ValidateHostName scripted_deps (createOptions.Name (dev1\<lparr>createOptions.Name := []\<rparr>))
   \<and> returned scripted_deps (scripted_api (Inr False) None None None)
        (dev1\<lparr>createOptions.Name := []\<rparr>) empty_world =
      Some (errorString ''Error creating machine: Invalid hostname specified'')
   \<and> calls scripted_deps (scripted_api (Inr False) None None None)
        (dev1\<lparr>createOptions.Name := []\<rparr>) empty_world = []"
proof -
  have bad: "\<not> ValidateHostName scripted_deps (createOptions.Name (dev1\<lparr>createOptions.Name := []\<rparr>))"
    by (simp add: scripted_deps_def)
  from invalid_name_fails_before_any_call [OF bad, of "scripted_api (Inr False) None None None" empty_world]
  show ?thesis using bad by (simp add: scripted_deps_def)
qed

text \<open>
  C4, as stated, fails. The name in the error is the name of the host that the registry
  returned, not the request's: with a registry whose host is named \<open>other\<close>, the
  request \<open>dev1\<close> ends in \<open>ErrHostAlreadyExists\<close> carrying \<open>other\<close>.
\<close>

theorem existing_host_other_name_counterexample:
  "calls scripted_deps (renaming_api (Inr True) None) dev1 empty_world =
     [Ev_NewHost ''virtualbox'' ''dev1'' (Inr other_host), Ev_Exists ''other'' (Inr True)]
   \<and> returned scripted_deps (renaming_api (Inr True) None) dev1 empty_world =
       Some (ErrHostAlreadyExists ''other'')
   \<and> createOptions.Name dev1 = ''dev1''
   \<and> returned scripted_deps (renaming_api (Inr True) None) dev1 empty_world \<noteq>
       Some (ErrHostAlreadyExists (createOptions.Name dev1))"
  by (simp add: out_defs run_renamed_existing) (simp add: dev1_def)

text \<open>
  C4, amended. When the store's existence check returns true, the workflow returns
  \<open>ErrHostAlreadyExists\<close> carrying the name of the host that the registry returned, which
  is the name the store was asked about; the registry and the store are the only
  collaborators called, so the driver's \<open>SetConfigFromFlags\<close> and \<open>Create\<close> are not. The
  name is the request's for a registry that names its host after the request.
\<close>

theorem existing_host_stops_before_driver:
  assumes "Ev_Exists n (Inr True) \<in> set (calls d api opt w)"
  shows "returned d api opt w = Some (ErrHostAlreadyExists n)
         \<and> (\<exists>raw reg wa.
               calls d api opt w =
                 [Ev_NewHost (createOptions.DriverName opt) raw (Inr reg), Ev_Exists n (Inr True)]
               \<and> n = Host.Name reg
               \<and> NewHost api (createOptions.DriverName opt) raw w = (Inr reg, wa)
               \<and> Exists api n wa = (Inr True, final d api opt w))
         \<and> filter is_SetConfigFromFlags (calls d api opt w) = []
         \<and> filter is_Create (calls d api opt w) = []
         \<and> ((\<forall>driverName raw h. Ev_NewHost driverName raw (Inr h) \<in> set (calls d api opt w)
                \<longrightarrow> Host.Name h = createOptions.Name opt)
              \<longrightarrow> returned d api opt w = Some (ErrHostAlreadyExists (createOptions.Name opt)))"
proof (cases rule: run_cases [of d api opt w])
  case (AlreadyExists raw reg wa wb)
  then have trace: "calls d api opt w =
      [Ev_NewHost (createOptions.DriverName opt) raw (Inr reg), Ev_Exists (Host.Name reg) (Inr True)]"
    by (simp add: out_defs)
  with assms have n: "n = Host.Name reg" by simp
  with AlreadyExists trace show ?thesis by (auto simp: out_defs)
qed (use assms in \<open>simp_all add: out_defs\<close>)

theorem existing_host_stops_before_driver_witness:
  "Ev_Exists ''dev1'' (Inr True)
     \<in> set (calls scripted_deps (scripted_api (Inr True) None None None) dev1 empty_world)
   \<and> returned scripted_deps (scripted_api (Inr True) None None None) dev1 empty_world =
      Some (ErrHostAlreadyExists ''dev1'')
   \<and> filter is_Create (calls scripted_deps (scripted_api (Inr True) None None None) dev1 empty_world) = []
   \<and> returned scripted_deps (scripted_api (Inr True) None None None) dev1 empty_world =
      Some (ErrHostAlreadyExists (createOptions.Name dev1))"
proof -
  have trace: "calls scripted_deps (scripted_api (Inr True) None None None) dev1 empty_world =
      [Ev_NewHost ''virtualbox'' ''dev1'' (Inr (dev1_host None)), Ev_Exists ''dev1'' (Inr True)]"
    by (simp add: calls_def scenario_B)
  have hit: "Ev_Exists ''dev1'' (Inr True)
     \<in> set (calls scripted_deps (scripted_api (Inr True) None None None) dev1 empty_world)"
    by (simp add: trace)
  have request_name: "createOptions.Name dev1 = ''dev1''"
    by (simp add: dev1_def)
  have named: "\<forall>driverName raw h. Ev_NewHost driverName raw (Inr h)
          \<in> set (calls scripted_deps (scripted_api (Inr True) None None None) dev1 empty_world)
        \<longrightarrow> Host.Name h = createOptions.Name dev1"
    by (auto simp: trace dev1_host_def request_name)
  from existing_host_stops_before_driver [OF hit] named hit show ?thesis by blast
qed

text \<open>
  C5. When \<open>SetConfigFromFlags\<close> returns an error, the workflow returns the error
  \<open>Error setting machine configuration from flags provided: ...\<close> with the driver's
  message, and neither \<open>Create\<close> nor \<open>Save\<close> is called.
\<close>

theorem rejected_config_stops_before_Create:
  assumes "Ev_SetConfigFromFlags driver flags (Some e) \<in> set (calls d api opt w)"
  shows "returned d api opt w =
           Some (errorString
             (''Error setting machine configuration from flags provided: '' @ Error d e))
         \<and> filter is_Create (calls d api opt w) = []
         \<and> filter is_Save (calls d api opt w) = []"
  using assms by (cases rule: run_cases [of d api opt w]) (auto simp: out_defs)

theorem rejected_config_stops_before_Create_witness:
  "Ev_SetConfigFromFlags (scripted_driver (Some ''bad flag'')) driverOpts (Some ''bad flag'')
     \<in> set (calls scripted_deps (scripted_api (Inr False) (Some ''bad flag'') None None) dev1 empty_world)
   \<and> returned scripted_deps (scripted_api (Inr False) (Some ''bad flag'') None None) dev1 empty_world =
      Some (errorString ''Error setting machine configuration from flags provided: bad flag'')
   \<and> filter is_Create
        (calls scripted_deps (scripted_api (Inr False) (Some ''bad flag'') None None) dev1 empty_world) = []
   \<and> filter is_Save
        (calls scripted_deps (scripted_api (Inr False) (Some ''bad flag'') None None) dev1 empty_world) = []"
proof -
  have rejected: "Ev_SetConfigFromFlags (scripted_driver (Some ''bad flag'')) driverOpts (Some ''bad flag'')
     \<in> set (calls scripted_deps (scripted_api (Inr False) (Some ''bad flag'') None None) dev1 empty_world)"
    by (simp add: calls_def run_rejected)
  have "Error scripted_deps ''bad flag'' = ''bad flag''"
    by (simp add: scripted_deps_def)
  with rejected_config_stops_before_Create [OF rejected] rejected
  show ?thesis by simp
qed

text \<open>
  C6, as stated, fails. With the \<open>virtualbox\<close> driver and no file at all on disk, a
  failed \<open>Create\<close> is reported with the non-empty path of the log the backend would have
  written: the workflow never looks at the disk. And the driver name reported is the
  one of the host, not of the request: with a registry whose host has the driver
  \<open>amazonec2\<close>, the request for \<open>virtualbox\<close> is reported with \<open>amazonec2\<close>.
\<close>

theorem log_path_without_artifact_counterexample:
  "returned scripted_deps (scripted_api (Inr False) None (Some ''disk full'') None) dev1 empty_world =
     Some (CrashError ''disk full'' ''Create'' ''api.performCreate'' ''virtualbox''
             ''/machines/dev1/dev1/Logs/VBox.log'')
   \<and> ''/machines/dev1/dev1/Logs/VBox.log'' \<noteq> []
   \<and> files empty_world = []
   \<and> files (final scripted_deps (scripted_api (Inr False) None (Some ''disk full'') None) dev1 empty_world) = []
   \<and> returned scripted_deps (renaming_api (Inr False) (Some ''quota'')) dev1 empty_world =
       Some (CrashError ''quota'' ''Create'' ''api.performCreate'' ''amazonec2'' '''')
   \<and> createOptions.DriverName dev1 = ''virtualbox''"
  by (simp add: out_defs run_C run_renamed_failed) (simp add: empty_world_def dev1_def opt_literal_def)

text \<open>
  C6, amended. When \<open>Create\<close> fails, the workflow returns a \<open>CrashError\<close> whose cause is
  the error of \<open>Create\<close>, whose command and context are \<open>Create\<close> and
  \<open>api.performCreate\<close>, and whose driver name is the one of the host as \<open>Create\<close> left
  it; the host handed to \<open>Create\<close> has the name and the driver name of the host that the
  registry returned. The log path is \<open>Join\<close> of the machines directory, the host's name
  twice, \<open>Logs\<close> and \<open>VBox.log\<close> when that driver name is \<open>virtualbox\<close>, and empty
  otherwise; whether such a file exists plays no part.
\<close>

theorem crash_report_of_failed_Create:
  assumes "Ev_Create h (Some e) h' \<in> set (calls d api opt w)"
  shows "(\<exists>raw reg. Ev_NewHost (createOptions.DriverName opt) raw (Inr reg) \<in> set (calls d api opt w)
            \<and> Host.DriverName h = Host.DriverName reg \<and> Host.Name h = Host.Name reg)
         \<and> (if Host.DriverName h' = ''virtualbox''
            then \<exists>dir. Ev_GetMachinesDir dir \<in> set (calls d api opt w)
                   \<and> returned d api opt w =
                       Some (CrashError e ''Create'' ''api.performCreate'' (Host.DriverName h')
                         (Join d [dir, Host.Name h', Host.Name h', ''Logs'', ''VBox.log'']))
            else returned d api opt w =
                   Some (CrashError e ''Create'' ''api.performCreate'' (Host.DriverName h') ''''))"
  using assms by (cases rule: run_cases [of d api opt w]) (auto simp: out_defs)

theorem crash_report_of_failed_Create_witness:
  "Ev_Create dev1_ready (Some ''disk full'') dev1_ready
     \<in> set (calls scripted_deps (scripted_api (Inr False) None (Some ''disk full'') None) dev1 empty_world)
   \<and> returned scripted_deps (scripted_api (Inr False) None (Some ''disk full'') None) dev1 empty_world =
       Some (CrashError ''disk full'' ''Create'' ''api.performCreate'' ''virtualbox''
               ''/machines/dev1/dev1/Logs/VBox.log'')
   \<and> Ev_Create other_ready (Some ''quota'') other_ready
     \<in> set (calls scripted_deps (renaming_api (Inr False) (Some ''quota'')) dev1 empty_world)
   \<and> returned scripted_deps (renaming_api (Inr False) (Some ''quota'')) dev1 empty_world =
       Some (CrashError ''quota'' ''Create'' ''api.performCreate'' ''amazonec2'' '''')"
proof -
  have vbox: "Ev_Create dev1_ready (Some ''disk full'') dev1_ready
     \<in> set (calls scripted_deps (scripted_api (Inr False) None (Some ''disk full'') None) dev1 empty_world)"
    by (simp add: calls_C)
  have ec2: "Ev_Create other_ready (Some ''quota'') other_ready
     \<in> set (calls scripted_deps (renaming_api (Inr False) (Some ''quota'')) dev1 empty_world)"
    by (simp add: calls_def run_renamed_failed)
  have ready: "Host.DriverName dev1_ready = ''virtualbox''" "Host.Name dev1_ready = ''dev1''"
    "Host.DriverName other_ready = ''amazonec2''"
    by (simp_all add: dev1_ready_def dev1_host_def other_ready_def other_host_def)
  have dir: "dir = ''/machines''"
    if "Ev_GetMachinesDir dir
          \<in> set (calls scripted_deps (scripted_api (Inr False) None (Some ''disk full'') None) dev1 empty_world)"
    for dir
    using that by (simp add: calls_C)
  have joined: "Join scripted_deps [''/machines'', ''dev1'', ''dev1'', ''Logs'', ''VBox.log'']
      = ''/machines/dev1/dev1/Logs/VBox.log''"
    by (simp add: scripted_deps_def)
  from crash_report_of_failed_Create [OF vbox] ready obtain dir' where
    "Ev_GetMachinesDir dir'
       \<in> set (calls scripted_deps (scripted_api (Inr False) None (Some ''disk full'') None) dev1 empty_world)"
    "returned scripted_deps (scripted_api (Inr False) None (Some ''disk full'') None) dev1 empty_world =
       Some (CrashError ''disk full'' ''Create'' ''api.performCreate'' ''virtualbox''
         (Join scripted_deps [dir', ''dev1'', ''dev1'', ''Logs'', ''VBox.log'']))"
    by auto
  with dir [of dir'] joined have r1:
    "returned scripted_deps (scripted_api (Inr False) None (Some ''disk full'') None) dev1 empty_world =
       Some (CrashError ''disk full'' ''Create'' ''api.performCreate'' ''virtualbox''
               ''/machines/dev1/dev1/Logs/VBox.log'')"
    by simp
  from crash_report_of_failed_Create [OF ec2] ready have r2:
    "returned scripted_deps (renaming_api (Inr False) (Some ''quota'')) dev1 empty_world =
       Some (CrashError ''quota'' ''Create'' ''api.performCreate'' ''amazonec2'' '''')"
    by simp
  from vbox r1 ec2 r2 show ?thesis by blast
qed

text \<open>
  C7, as stated, fails. In the run of scenario A the registry is called first: there is
  a \<open>NewHost\<close> call that no \<open>Exists\<close> call precedes.
\<close>

theorem guard_before_registry_counterexample:
  "\<not> precedes is_Exists is_NewHost
       (calls scripted_deps (scripted_api (Inr False) None None None) dev1 empty_world)"
  by (simp add: calls_A)

text \<open>
  C7, amended. The order is the other way round: every \<open>Exists\<close> call comes after a
  \<open>NewHost\<close> call. A run that consults the store begins with the registry's successful
  \<open>NewHost\<close> for the request's driver name, directly followed by \<open>Exists\<close> on the name of
  the host that the registry returned.
\<close>

theorem registry_before_guard:
  "precedes is_NewHost is_Exists (calls d api opt w)
   \<and> (\<forall>n r. Ev_Exists n r \<in> set (calls d api opt w) \<longrightarrow>
        (\<exists>raw h0. take 2 (calls d api opt w) =
           [Ev_NewHost (createOptions.DriverName opt) raw (Inr h0), Ev_Exists (Host.Name h0) r]
           \<and> n = Host.Name h0))"
  by (cases rule: run_cases [of d api opt w]) (simp_all add: out_defs)

theorem registry_before_guard_witness:
  "Ev_Exists ''dev1'' (Inr False)
     \<in> set (calls scripted_deps (scripted_api (Inr False) None None None) dev1 empty_world)
   \<and> precedes is_NewHost is_Exists
       (calls scripted_deps (scripted_api (Inr False) None None None) dev1 empty_world)
   \<and> (\<exists>raw h0. take 2 (calls scripted_deps (scripted_api (Inr False) None None None) dev1 empty_world) =
           [Ev_NewHost ''virtualbox'' raw (Inr h0), Ev_Exists (Host.Name h0) (Inr False)]
           \<and> ''dev1'' = Host.Name h0)"
proof -
  have asked: "Ev_Exists ''dev1'' (Inr False)
     \<in> set (calls scripted_deps (scripted_api (Inr False) None None None) dev1 empty_world)"
    by (simp add: calls_A)
  have "createOptions.DriverName dev1 = ''virtualbox''"
    by (simp add: dev1_def opt_literal_def)
  with registry_before_guard [of scripted_deps "scripted_api (Inr False) None None None" dev1 empty_world]
    asked
  show ?thesis by auto
qed

text \<open>
  C8, as stated, fails. When the existence check returns the error \<open>store offline\<close>, the
  workflow does not return that error value: it returns a new error whose message has
  a prefix put before the store's.
\<close>

theorem store_error_verbatim_counterexample:
  "Ev_Exists ''dev1'' (Inl ''store offline'')
     \<in> set (calls scripted_deps (scripted_api (Inl ''store offline'') None None None) dev1 empty_world)
   \<and> returned scripted_deps (scripted_api (Inl ''store offline'') None None None) dev1 empty_world
       \<noteq> Some (Foreign ''store offline'')
   \<and> returned scripted_deps (scripted_api (Inl ''store offline'') None None None) dev1 empty_world
       = Some (errorString ''Error checking if host exists: store offline'')"
  by (simp add: out_defs run_store_offline)

text \<open>
  C8, amended. When the existence check returns an error, the workflow returns a new
  error whose message is \<open>Error checking if host exists: \<close> followed by the message of
  the store's error, and nothing is called after the check.
\<close>

theorem store_error_is_reworded:
  assumes "Ev_Exists n (Inl e) \<in> set (calls d api opt w)"
  shows "returned d api opt w =
           Some (errorString (''Error checking if host exists: '' @ Error d e))
         \<and> returned d api opt w \<noteq> Some (Foreign e)
         \<and> last (calls d api opt w) = Ev_Exists n (Inl e)"
  using assms by (cases rule: run_cases [of d api opt w]) (auto simp: out_defs)

theorem store_error_is_reworded_witness:
  "Ev_Exists ''dev1'' (Inl ''store offline'')
     \<in> set (calls scripted_deps (scripted_api (Inl ''store offline'') None None None) dev1 empty_world)
   \<and> returned scripted_deps (scripted_api (Inl ''store offline'') None None None) dev1 empty_world
       = Some (errorString ''Error checking if host exists: store offline'')"
proof -
  have failed: "Ev_Exists ''dev1'' (Inl ''store offline'')
     \<in> set (calls scripted_deps (scripted_api (Inl ''store offline'') None None None) dev1 empty_world)"
    by (simp add: calls_def run_store_offline)
  have "Error scripted_deps ''store offline'' = ''store offline''"
    by (simp add: scripted_deps_def)
  with store_error_is_reworded [OF failed] failed
  show ?thesis by simp
qed

text \<open>
  C9. When \<open>Create\<close> succeeds and \<open>Save\<close> returns an error, the workflow returns the
  error \<open>Error attempting to save store: ...\<close> with the store's message. It is an error
  of another kind than the \<open>CrashError\<close> that any run with a failed \<open>Create\<close> returns,
  so the two are never equal.
\<close>

theorem persist_failure_is_not_a_crash_report:
  assumes "Ev_Save h (Some e) \<in> set (calls d api opt w)"
    and "Ev_Create h' (Some e') left \<in> set (calls d' api' opt' w')"
  shows "(\<exists>ready. Ev_Create ready None h \<in> set (calls d api opt w))
         \<and> returned d api opt w =
             Some (errorString (''Error attempting to save store: '' @ Error d e))
         \<and> (\<exists>path. returned d' api' opt' w' =
               Some (CrashError e' ''Create'' ''api.performCreate'' (Host.DriverName left) path))
         \<and> returned d api opt w \<noteq> returned d' api' opt' w'"
proof -
  have persist: "(\<exists>ready. Ev_Create ready None h \<in> set (calls d api opt w))
         \<and> returned d api opt w =
             Some (errorString (''Error attempting to save store: '' @ Error d e))"
    using assms(1) by (cases rule: run_cases [of d api opt w]) (auto simp: out_defs)
  have crash: "\<exists>path. returned d' api' opt' w' =
               Some (CrashError e' ''Create'' ''api.performCreate'' (Host.DriverName left) path)"
    using assms(2) by (cases rule: run_cases [of d' api' opt' w']) (auto simp: out_defs)
  from persist crash show ?thesis by auto
qed

theorem persist_failure_is_not_a_crash_report_witness:
  "Ev_Save dev1_ready (Some ''disk full'')
     \<in> set (calls scripted_deps (scripted_api (Inr False) None None (Some ''disk full'')) dev1 empty_world)
   \<and> Ev_Create dev1_ready (Some ''disk full'') dev1_ready
     \<in> set (calls scripted_deps (scripted_api (Inr False) None (Some ''disk full'') None) dev1 empty_world)
   \<and> returned scripted_deps (scripted_api (Inr False) None None (Some ''disk full'')) dev1 empty_world =
       Some (errorString ''Error attempting to save store: disk full'')
   \<and> returned scripted_deps (scripted_api (Inr False) None None (Some ''disk full'')) dev1 empty_world
       \<noteq> returned scripted_deps (scripted_api (Inr False) None (Some ''disk full'') None) dev1 empty_world"
proof -
  have unsaved: "Ev_Save dev1_ready (Some ''disk full'')
     \<in> set (calls scripted_deps (scripted_api (Inr False) None None (Some ''disk full'')) dev1 empty_world)"
    by (simp add: calls_D)
  have uncreated: "Ev_Create dev1_ready (Some ''disk full'') dev1_ready
     \<in> set (calls scripted_deps (scripted_api (Inr False) None (Some ''disk full'') None) dev1 empty_world)"
    by (simp add: calls_C)
  from persist_failure_is_not_a_crash_report [OF unsaved uncreated]
  have r: "returned scripted_deps (scripted_api (Inr False) None None (Some ''disk full'')) dev1 empty_world =
       Some (errorString (''Error attempting to save store: '' @ Error scripted_deps ''disk full''))"
    and differ: "returned scripted_deps (scripted_api (Inr False) None None (Some ''disk full'')) dev1 empty_world
       \<noteq> returned scripted_deps (scripted_api (Inr False) None (Some ''disk full'') None) dev1 empty_world"
    by blast+
  have "Error scripted_deps ''disk full'' = ''disk full''"
    by (simp add: scripted_deps_def)
  with r have "returned scripted_deps (scripted_api (Inr False) None None (Some ''disk full'')) dev1 empty_world =
       Some (errorString ''Error attempting to save store: disk full'')"
    by simp
  with unsaved uncreated differ show ?thesis by blast
qed

text \<open>
  C10. The four methods of \<open>driverOpts\<close> return the same value for every key: the empty
  string, the empty list, 0 and true. It is this accessor that every call of
  \<open>SetConfigFromFlags\<close> receives.
\<close>

theorem driverOpts_constant:
  "String driverOpts key = ''''
   \<and> StringSlice driverOpts key = []
   \<and> Int_opt driverOpts key = 0
   \<and> Bool driverOpts key = True
   \<and> (\<forall>driver flags r. Ev_SetConfigFromFlags driver flags r \<in> set (calls d api opt w)
        \<longrightarrow> flags = driverOpts)"
proof -
  have "\<forall>driver flags r. Ev_SetConfigFromFlags driver flags r \<in> set (calls d api opt w)
        \<longrightarrow> flags = driverOpts"
    by (cases rule: run_cases [of d api opt w]) (simp_all add: out_defs)
  then show ?thesis by (simp add: driverOpts_def)
qed

theorem driverOpts_constant_witness:
  "(\<exists>driver flags. Ev_SetConfigFromFlags driver flags None
       \<in> set (calls scripted_deps (scripted_api (Inr False) None None None) dev1 empty_world)
     \<and> String flags ''virtualbox-memory'' = ''''
     \<and> StringSlice flags ''virtualbox-memory'' = []
     \<and> Int_opt flags ''virtualbox-memory'' = 0
     \<and> Bool flags ''virtualbox-memory'' = True)"
proof -
  have passed: "Ev_SetConfigFromFlags (scripted_driver None) driverOpts None
       \<in> set (calls scripted_deps (scripted_api (Inr False) None None None) dev1 empty_world)"
    by (simp add: calls_A)
  from driverOpts_constant [of "''virtualbox-memory''" scripted_deps
      "scripted_api (Inr False) None None None" dev1 empty_world] passed
  show ?thesis by blast
qed

end
